theory Spec2Isabelle
  imports Complex_Main
begin

section \<open>JavaScript values used by transform.js\<close>

text \<open>
  The amounts handled by \<^verbatim>\<open>src/js/transform.js\<close> are JavaScript numbers, arrays of
  numbers, or \<^verbatim>\<open>undefined\<close>. A number is idealised as a real, or one of the three
  non-finite doubles; rounding and the sign of zero are not modelled.
\<close>

datatype num = Fin real | PInf | NInf | NaN

datatype jsval = Undefined | Number num | Array "num list"

datatype error = TypeError

text \<open>\<^verbatim>\<open>ToNumber\<close>: \<^verbatim>\<open>undefined\<close> is NaN; an array goes through its string form, so
  \<^verbatim>\<open>[]\<close> is 0, a one-element array is its element, and a longer one is NaN.\<close>

fun toNumber :: "jsval \<Rightarrow> num" where
  "toNumber Undefined = NaN"
| "toNumber (Number n) = n"
| "toNumber (Array []) = Fin 0"
| "toNumber (Array [n]) = n"
| "toNumber (Array (n # n' # ns)) = NaN"

text \<open>\<^verbatim>\<open>-1 * v\<close> on a number.\<close>

fun num_neg :: "num \<Rightarrow> num" where
  "num_neg (Fin r) = Fin (- 1 * r)"
| "num_neg PInf = NInf"
| "num_neg NInf = PInf"
| "num_neg NaN = NaN"

text \<open>\<^verbatim>\<open>1 / v\<close> on a number; \<^verbatim>\<open>1 / 0\<close> is \<^verbatim>\<open>Infinity\<close>.\<close>

fun num_recip :: "num \<Rightarrow> num" where
  "num_recip (Fin r) = (if r = 0 then PInf else Fin (1 / r))"
| "num_recip PInf = Fin 0"
| "num_recip NInf = Fin 0"
| "num_recip NaN = NaN"

text \<open>\<^verbatim>\<open>v <= 0\<close> on a number; every comparison with NaN is false.\<close>

fun num_le0 :: "num \<Rightarrow> bool" where
  "num_le0 (Fin r) = (r \<le> 0)"
| "num_le0 PInf = False"
| "num_le0 NInf = True"
| "num_le0 NaN = False"

definition js_neg :: "jsval \<Rightarrow> num" where
  "js_neg v = num_neg (toNumber v)"

definition js_recip :: "jsval \<Rightarrow> num" where
  "js_recip v = num_recip (toNumber v)"

definition js_le0 :: "jsval \<Rightarrow> bool" where
  "js_le0 v = num_le0 (toNumber v)"

text \<open>\<^verbatim>\<open>v[i]\<close> for a \<^verbatim>\<open>v\<close> that is not \<^verbatim>\<open>undefined\<close> (where the access throws, which
  the callers write out): a number has no indexed property, an array has its elements.\<close>

fun elem :: "jsval \<Rightarrow> nat \<Rightarrow> jsval" where
  "elem (Array ns) i = (if i < length ns then Number (ns ! i) else Undefined)"
| "elem (Number n) i = Undefined"
| "elem Undefined i = Undefined"

text \<open>The truthiness of \<^verbatim>\<open>v.length\<close>: a \<^verbatim>\<open>TypeError\<close> on \<^verbatim>\<open>undefined\<close>, absent on a
  number, the number of elements on an array.\<close>

fun has_length :: "jsval \<Rightarrow> error + bool" where
  "has_length Undefined = Inl TypeError"
| "has_length (Number n) = Inr False"
| "has_length (Array ns) = Inr (length ns \<noteq> 0)"

text \<open>The string form of an axis argument, as string concatenation sees it.\<close>

fun axis_str :: "string option \<Rightarrow> string" where
  "axis_str None = ''undefined''"
| "axis_str (Some a) = a"

section \<open>The collaborators: model and message sink\<close>

text \<open>
  The model is an external object. The constructor reads its bounds and its centre; every
  other use is a call of one of its four primitives, recorded as a \<open>call\<close> in the order in
  which the code issues it. \<open>ident\<close> is the identity of the object.
\<close>

record model =
  ident :: nat
  xmin :: num
  ymin :: num
  zmin :: num
  getCenterx :: num
  getCentery :: num
  getCenterz :: num

text \<open>\<^verbatim>\<open>model[name]\<close> for the bound properties.\<close>

definition model_prop :: "model \<Rightarrow> string \<Rightarrow> jsval" where
  "model_prop m name =
     (if name = ''xmin'' then Number (xmin m)
      else if name = ''ymin'' then Number (ymin m)
      else if name = ''zmin'' then Number (zmin m)
      else Undefined)"

text \<open>\<^verbatim>\<open>model[name]()\<close> for the centre queries; calling a missing method throws.\<close>

definition model_call :: "model \<Rightarrow> string \<Rightarrow> error + num" where
  "model_call m name =
     (if name = ''getCenterx'' then Inr (getCenterx m)
      else if name = ''getCentery'' then Inr (getCentery m)
      else if name = ''getCenterz'' then Inr (getCenterz m)
      else Inl TypeError)"

datatype sink = Console | Printout nat

datatype call =
    Warn sink "string option"
  | Translate model "string option" jsval
  | Rotate model "string option" jsval
  | Scale model "string option" jsval
  | ToggleWireframe model

section \<open>Transform\<close>

record transform =
  printout :: sink
  op :: "string option"
  reason :: "string option"
  model :: "model option"
  dynamic :: "bool option"
  axis :: "string option"
  amount :: jsval
  inverse_flag :: bool
  start :: jsval

text \<open>The object before the constructor body has set anything.\<close>

definition new_object :: transform where
  "new_object = \<lparr>printout = Console, op = None, reason = None, model = None,
     dynamic = None, axis = None, amount = Undefined, inverse_flag = False,
     start = Undefined\<rparr>"

text \<open>The test of the scale case:
  \<^verbatim>\<open>amount<=0 || (amount.length && (amount[0]<=0 || amount[1]<=0 || amount[2]<=0))\<close>.\<close>

definition isBadScale :: "jsval \<Rightarrow> error + bool" where
  "isBadScale a =
     (if js_le0 a then Inr True
      else case has_length a of
             Inl e \<Rightarrow> Inl e
           | Inr False \<Rightarrow> Inr False
           | Inr True \<Rightarrow>
               Inr (js_le0 (elem a 0) \<or> js_le0 (elem a 1) \<or> js_le0 (elem a 2)))"

text \<open>
  The constructor \<^verbatim>\<open>Transform(op, axis, amount, model, printout)\<close>. \<open>str\<close> is the string
  form JavaScript gives an amount when it is appended to the reason.
\<close>

definition Transform ::
  "(jsval \<Rightarrow> string) \<Rightarrow> string option \<Rightarrow> string option \<Rightarrow> jsval \<Rightarrow> model option \<Rightarrow>
     sink option \<Rightarrow> error + transform" where
  "Transform str op' axis' amount' model' printout' =
     (let this = new_object\<lparr>printout := (case printout' of Some p \<Rightarrow> p | None \<Rightarrow> Console)\<rparr>
      in case model' of
        None \<Rightarrow> Inr (this\<lparr>op := Some ''noop'', reason := Some ''Model doesn't exist.''\<rparr>)
      | Some m \<Rightarrow>
         (let this = this\<lparr>model := Some m, dynamic := Some False\<rparr>
          in if op' = Some ''floor'' then
               (let this = this\<lparr>op := Some ''translate'', axis := axis'\<rparr>
                in if axis' = Some ''all''
                   then Inr (this\<lparr>amount :=
                          Array [num_neg (xmin m), num_neg (ymin m), num_neg (zmin m)]\<rparr>)
                   else Inr (this\<lparr>amount :=
                          Number (js_neg (model_prop m (axis_str axis' @ ''min'')))\<rparr>))
             else if op' = Some ''center'' then
               (let this = this\<lparr>op := Some ''translate'', axis := axis'\<rparr>
                in if axis' = Some ''all''
                   then Inr (this\<lparr>amount :=
                          Array [num_neg (getCenterx m), num_neg (getCentery m),
                                 num_neg (getCenterz m)]\<rparr>)
                   else case model_call m (''getCenter'' @ axis_str axis') of
                          Inl e \<Rightarrow> Inl e
                        | Inr c \<Rightarrow> Inr (this\<lparr>amount := Number (num_neg c)\<rparr>))
             else if op' = Some ''translate'' then
               Inr (this\<lparr>op := Some ''translate'', axis := axis', amount := amount'\<rparr>)
             else if op' = Some ''rotate'' then
               Inr (this\<lparr>op := Some ''rotate'', axis := axis', amount := amount'\<rparr>)
             else if op' = Some ''scale'' then
               (case isBadScale amount' of
                  Inl e \<Rightarrow> Inl e
                | Inr True \<Rightarrow>
                    Inr (this\<lparr>op := Some ''noop'',
                      reason := Some (''Cannot scale by 0 or negative numbers: '' @ str amount')\<rparr>)
                | Inr False \<Rightarrow>
                    Inr (this\<lparr>op := Some ''scale'', axis := axis', amount := amount'\<rparr>))
             else if op' = Some ''toggleWireframe'' then
               Inr (this\<lparr>op := Some ''toggleWireframe''\<rparr>)
             else Inr this))"

text \<open>
  \<^verbatim>\<open>makeInverse\<close>: \<open>None\<close> is \<^verbatim>\<open>null\<close>. Reading \<^verbatim>\<open>this.amount[0]\<close> throws when the amount
  is \<^verbatim>\<open>undefined\<close>. The inverse is built by the constructor, with no printout argument.
\<close>

definition makeInverse :: "(jsval \<Rightarrow> string) \<Rightarrow> transform \<Rightarrow> error + transform option" where
  "makeInverse str this =
     (if op this = Some ''noop'' then Inr None
      else
        case (if op this = Some ''scale'' then
                (if axis this = Some ''all'' then
                   (case amount this of
                      Undefined \<Rightarrow> Inl TypeError
                    | a \<Rightarrow> Inr (Array [js_recip (elem a 0), js_recip (elem a 1),
                                      js_recip (elem a 2)]))
                 else Inr (Number (js_recip (amount this))))
              else
                (if axis this = Some ''all'' then
                   (case amount this of
                      Undefined \<Rightarrow> Inl TypeError
                    | a \<Rightarrow> Inr (Array [js_neg (elem a 0), js_neg (elem a 1),
                                      js_neg (elem a 2)]))
                 else Inr (Number (js_neg (amount this))))) of
          Inl e \<Rightarrow> Inl e
        | Inr amount' \<Rightarrow>
            (case Transform str (op this) (axis this) amount' (model this) None of
               Inl e \<Rightarrow> Inl e
             | Inr inv' \<Rightarrow> Inr (Some (inv'\<lparr>inverse_flag := True\<rparr>))))"

text \<open>
  \<^verbatim>\<open>apply\<close>: the calls issued on the message sink and on the model, in order. Reading a
  property of an absent model or an element of an \<^verbatim>\<open>undefined\<close> amount throws before
  the first call of the branch.
\<close>

definition Transform_apply :: "transform \<Rightarrow> error + call list" where
  "Transform_apply this =
     (if op this = Some ''noop'' then Inr [Warn (printout this) (reason this)]
      else if op this = Some ''translate'' then
        (case model this of
           None \<Rightarrow> Inl TypeError
         | Some m \<Rightarrow>
            if axis this = Some ''all'' then
              (case amount this of
                 Undefined \<Rightarrow> Inl TypeError
               | a \<Rightarrow> Inr [Translate m (Some ''x'') (elem a 0),
                           Translate m (Some ''y'') (elem a 1),
                           Translate m (Some ''z'') (elem a 2)])
            else Inr [Translate m (axis this) (amount this)])
      else if op this = Some ''rotate'' then
        (case model this of
           None \<Rightarrow> Inl TypeError
         | Some m \<Rightarrow>
            if axis this = Some ''all'' then
              (let axisOrder = (if inverse_flag this then [''z'', ''y'', ''x'']
                                else [''x'', ''y'', ''z''])
               in case amount this of
                    Undefined \<Rightarrow> Inl TypeError
                  | a \<Rightarrow> Inr [Rotate m (Some (axisOrder ! 0)) (elem a 0),
                              Rotate m (Some (axisOrder ! 1)) (elem a 1),
                              Rotate m (Some (axisOrder ! 2)) (elem a 2)])
            else Inr [Rotate m (axis this) (amount this)])
      else if op this = Some ''scale'' then
        (case model this of
           None \<Rightarrow> Inl TypeError
         | Some m \<Rightarrow>
            if axis this = Some ''all'' then
              (case amount this of
                 Undefined \<Rightarrow> Inl TypeError
               | a \<Rightarrow> Inr [Scale m (Some ''x'') (elem a 0),
                           Scale m (Some ''y'') (elem a 0),
                           Scale m (Some ''z'') (elem a 0)])
            else Inr [Scale m (axis this) (amount this)])
      else if op this = Some ''toggleWireframe'' then
        (case model this of
           None \<Rightarrow> Inl TypeError
         | Some m \<Rightarrow> Inr [ToggleWireframe m])
      else Inr [])"

definition setDynamicStart :: "transform \<Rightarrow> jsval \<Rightarrow> transform" where
  "setDynamicStart this start' = this\<lparr>dynamic := Some True, start := start'\<rparr>"

definition setAmount :: "transform \<Rightarrow> jsval \<Rightarrow> transform" where
  "setAmount this amount' = this\<lparr>amount := amount'\<rparr>"

section \<open>UndoStack\<close>

record undo_stack =
  printout :: sink
  history :: "transform list"

definition UndoStack :: "sink option \<Rightarrow> undo_stack" where
  "UndoStack printout' =
     \<lparr>printout = (case printout' of Some p \<Rightarrow> p | None \<Rightarrow> Console), history = []\<rparr>"

text \<open>\<^verbatim>\<open>undo\<close> returns the stack after the call and what the call did: the entry is
  popped before it is applied, so it is gone also when applying it throws.\<close>

definition undo :: "undo_stack \<Rightarrow> undo_stack \<times> (error + call list)" where
  "undo this =
     (if length (history this) = 0
      then (this, Inr [Warn (undo_stack.printout this) (Some ''No undo history available.'')])
      else (let inv' = last (history this)
            in (this\<lparr>history := butlast (history this)\<rparr>, Transform_apply inv')))"

definition push :: "undo_stack \<Rightarrow> transform option \<Rightarrow> undo_stack" where
  "push this inv' = (case inv' of None \<Rightarrow> this | Some i \<Rightarrow> this\<lparr>history := history this @ [i]\<rparr>)"

definition clear :: "undo_stack \<Rightarrow> undo_stack" where
  "clear this = this\<lparr>history := []\<rparr>"

section \<open>The invariants of the data model\<close>

text \<open>
  A Transform as the data model describes it: the amount is a triple exactly when the axis
  is \<^verbatim>\<open>"all"\<close> and a single number otherwise, the amounts of a scale are finite and
  strictly positive, and a Transform that is not a rejected one has a model. The op is one
  the constructor stores (it never stores \<^verbatim>\<open>"floor"\<close> or \<^verbatim>\<open>"center"\<close>), and a Transform
  without an amount has no axis.
\<close>

fun positive :: "num \<Rightarrow> bool" where
  "positive (Fin r) = (0 < r)"
| "positive PInf = False"
| "positive NInf = False"
| "positive NaN = False"

fun is_finite :: "num \<Rightarrow> bool" where
  "is_finite (Fin r) = True"
| "is_finite PInf = False"
| "is_finite NInf = False"
| "is_finite NaN = False"

fun is_number :: "jsval \<Rightarrow> bool" where
  "is_number (Number n) = True"
| "is_number Undefined = False"
| "is_number (Array ns) = False"

fun is_triple :: "jsval \<Rightarrow> bool" where
  "is_triple (Array ns) = (length ns = 3)"
| "is_triple Undefined = False"
| "is_triple (Number n) = False"

fun all_positive :: "jsval \<Rightarrow> bool" where
  "all_positive (Number n) = positive n"
| "all_positive (Array ns) = list_all positive ns"
| "all_positive Undefined = False"

fun finite_amount :: "jsval \<Rightarrow> bool" where
  "finite_amount (Number n) = is_finite n"
| "finite_amount (Array ns) = list_all is_finite ns"
| "finite_amount Undefined = False"

definition shaped :: "string option \<Rightarrow> jsval \<Rightarrow> bool" where
  "shaped ax a = (if ax = Some ''all'' then is_triple a else is_number a)"

definition well_formed :: "transform \<Rightarrow> bool" where
  "well_formed t =
     (op t = Some ''noop'' \<or>
      model t \<noteq> None \<and>
      (if op t = Some ''scale'' then shaped (axis t) (amount t) \<and> all_positive (amount t)
       else if op t = Some ''translate'' \<or> op t = Some ''rotate''
         then shaped (axis t) (amount t)
       else (op t = Some ''toggleWireframe'' \<or> op t = None) \<and> axis t = None))"

text \<open>An operation on numbers taken to every component of an amount.\<close>

fun componentwise :: "(num \<Rightarrow> num) \<Rightarrow> jsval \<Rightarrow> jsval" where
  "componentwise f (Number n) = Number (f n)"
| "componentwise f (Array ns) = Array (map f ns)"
| "componentwise f Undefined = Undefined"

section \<open>What the model's primitives do\<close>

text \<open>
  Modelled from the spec: the model's \<^verbatim>\<open>scale(axis, amount)\<close> primitive, which is not part
  of \<^verbatim>\<open>transform.js\<close>. It multiplies the scale factor of the model along the named axis
  by the amount. The state gives every model, by its identity, a factor for every axis;
  the other calls leave the factors alone, and so does a scale by an amount that is not a
  finite number, which the exact arithmetic of the factors does not cover.
\<close>

fun scale_effect ::
  "call \<Rightarrow> (nat \<Rightarrow> string option \<Rightarrow> real) \<Rightarrow> nat \<Rightarrow> string option \<Rightarrow> real" where
  "scale_effect (Scale m ax (Number (Fin a))) f =
     f(ident m := (f (ident m))(ax := f (ident m) ax * a))"
| "scale_effect c f = f"

text \<open>
  Modelled from the spec: the model's \<^verbatim>\<open>rotate(axis, amount)\<close> primitive, which is not part
  of \<^verbatim>\<open>transform.js\<close>. It turns the model about the named coordinate axis by the amount,
  read as an angle in radians. The orientation of a model is where its three unit vectors
  point.
\<close>

type_synonym vec = "real \<times> real \<times> real"

fun rot :: "string option \<Rightarrow> real \<Rightarrow> vec \<Rightarrow> vec" where
  "rot ax a (x, y, z) =
     (if ax = Some ''x'' then (x, y * cos a - z * sin a, y * sin a + z * cos a)
      else if ax = Some ''y'' then (x * cos a + z * sin a, y, z * cos a - x * sin a)
      else if ax = Some ''z'' then (x * cos a - y * sin a, x * sin a + y * cos a, z)
      else (x, y, z))"

fun rotate_effect :: "call \<Rightarrow> (nat \<Rightarrow> vec list) \<Rightarrow> nat \<Rightarrow> vec list" where
  "rotate_effect (Rotate m ax (Number (Fin a))) f =
     f(ident m := map (rot ax a) (f (ident m)))"
| "rotate_effect c f = f"

definition upright :: "vec list" where
  "upright = [(1, 0, 0), (0, 1, 0), (0, 0, 1)]"

section \<open>Concrete objects\<close>

definition example_model :: model where
  "example_model = \<lparr>ident = 0, xmin = Fin (- 2), ymin = Fin 0, zmin = Fin 5,
     getCenterx = Fin 1, getCentery = Fin 2, getCenterz = Fin 7\<rparr>"

definition example_scale :: transform where
  "example_scale = \<lparr>transform.printout = Console, op = Some ''scale'', reason = None,
     model = Some example_model, dynamic = Some False, axis = Some ''all'',
     amount = Array [Fin 2, Fin 4, Fin 5], inverse_flag = False, start = Undefined\<rparr>"

definition example_translate :: transform where
  "example_translate = \<lparr>transform.printout = Console, op = Some ''translate'', reason = None,
     model = Some example_model, dynamic = Some False, axis = Some ''all'',
     amount = Array [Fin 1, Fin (- 3), Fin 0], inverse_flag = False, start = Undefined\<rparr>"

definition example_noop :: transform where
  "example_noop = \<lparr>transform.printout = Console, op = Some ''noop'',
     reason = Some ''Model doesn't exist.'', model = None, dynamic = None, axis = None,
     amount = Undefined, inverse_flag = False, start = Undefined\<rparr>"

definition example_str :: "jsval \<Rightarrow> string" where
  "example_str v = (case v of Undefined \<Rightarrow> ''undefined'' | Number n \<Rightarrow> ''number''
     | Array ns \<Rightarrow> ''array'')"

section \<open>Construction\<close>

text \<open>
  C7: for every op, axis and amount, constructing a Transform with the model absent yields
  op \<^verbatim>\<open>"noop"\<close> and reason \<^verbatim>\<open>"Model doesn't exist."\<close>; nothing else of the constructor
  runs: the only other field set is the printout, and no error is raised, also for the
  arguments on which the scale validation or the centre query would throw.
\<close>

theorem Transform_without_model:
  "Transform str op' axis' amount' None printout' =
     Inr \<lparr>transform.printout = (case printout' of Some p \<Rightarrow> p | None \<Rightarrow> Console),
          op = Some ''noop'', reason = Some ''Model doesn't exist.'', model = None,
          dynamic = None, axis = None, amount = Undefined, inverse_flag = False,
          start = Undefined\<rparr>"
  by (simp add: Transform_def new_object_def)

lemma axis_min_x: "(axis_str ax @ ''min'' = ''xmin'') = (ax = Some ''x'')"
  by (cases ax) auto

lemma axis_min_y: "(axis_str ax @ ''min'' = ''ymin'') = (ax = Some ''y'')"
  by (cases ax) auto

lemma axis_min_z: "(axis_str ax @ ''min'' = ''zmin'') = (ax = Some ''z'')"
  by (cases ax) auto

text \<open>
  C8: constructing a Transform with op \<^verbatim>\<open>"floor"\<close> gives a translate whose amount is the
  negation of the model's minimum bounds: the triple of the negated minima in the order
  x, y, z for the axis \<^verbatim>\<open>"all"\<close>, and the negated minimum of the axis for x, y and z
  (any other axis names no bound, and the amount is NaN). For a model with xmin = -2,
  ymin = 0 and zmin = 5 the amount on the axis \<^verbatim>\<open>"all"\<close> is [2, 0, -5].
\<close>

theorem floor_resolves_to_translate:
  "(\<exists>t. Transform str (Some ''floor'') ax a (Some m) p = Inr t
        \<and> op t = Some ''translate'' \<and> axis t = ax
        \<and> amount t =
            (if ax = Some ''all''
               then Array [num_neg (xmin m), num_neg (ymin m), num_neg (zmin m)]
             else if ax = Some ''x'' then Number (num_neg (xmin m))
             else if ax = Some ''y'' then Number (num_neg (ymin m))
             else if ax = Some ''z'' then Number (num_neg (zmin m))
             else Number NaN))
   \<and> (\<exists>t. Transform str (Some ''floor'') (Some ''all'') a
              (Some (m\<lparr>xmin := Fin (- 2), ymin := Fin 0, zmin := Fin 5\<rparr>)) p = Inr t
        \<and> op t = Some ''translate''
        \<and> amount t = Array [Fin 2, Fin 0, Fin (- 5)])"
  by (simp add: Transform_def new_object_def model_prop_def js_neg_def
        axis_min_x axis_min_y axis_min_z)

theorem floor_resolves_to_translate_witness:
  "\<exists>t. Transform example_str (Some ''floor'') (Some ''z'') Undefined (Some example_model) None
          = Inr t
       \<and> op t = Some ''translate'' \<and> axis t = Some ''z'' \<and> amount t = Number (Fin (- 5))"
  using floor_resolves_to_translate [of example_str "Some ''z''" Undefined example_model None]
  by (simp add: example_model_def)

text \<open>
  C6: constructing a scale Transform whose amount is a number that is at most 0, or a triple
  with a component that is at most 0, yields op \<^verbatim>\<open>"noop"\<close> with a non-empty reason, and
  applying it only hands that reason to the \<^verbatim>\<open>warn\<close> entry of its message sink: no
  primitive of the model is called.
\<close>

theorem bad_scale_is_noop:
  assumes "(\<exists>n. amount' = Number n \<and> num_le0 n)
         \<or> (\<exists>n0 n1 n2. amount' = Array [n0, n1, n2] \<and> (num_le0 n0 \<or> num_le0 n1 \<or> num_le0 n2))"
  shows "\<exists>t r. Transform str (Some ''scale'') axis' amount' model' printout' = Inr t
           \<and> op t = Some ''noop'' \<and> reason t = Some r \<and> r \<noteq> []
           \<and> Transform_apply t = Inr [Warn (transform.printout t) (Some r)]"
  using assms
  by (cases model')
     (auto simp: Transform_def new_object_def isBadScale_def js_le0_def Transform_apply_def)

theorem bad_scale_is_noop_witness:
  "(num_le0 (Fin 1) \<or> num_le0 (Fin (- 1)) \<or> num_le0 (Fin 1))
   \<and> (\<exists>t r. Transform example_str (Some ''scale'') (Some ''all'')
                (Array [Fin 1, Fin (- 1), Fin 1]) (Some example_model) (Some (Printout 3))
              = Inr t
            \<and> op t = Some ''noop'' \<and> reason t = Some r \<and> r \<noteq> []
            \<and> Transform_apply t = Inr [Warn (transform.printout t) (Some r)])"
proof -
  have h: "num_le0 (Fin 1) \<or> num_le0 (Fin (- 1)) \<or> num_le0 (Fin 1)"
    by simp
  then have "(\<exists>n. Array [Fin 1, Fin (- 1), Fin 1] = Number n \<and> num_le0 n)
      \<or> (\<exists>n0 n1 n2. Array [Fin 1, Fin (- 1), Fin 1] = Array [n0, n1, n2]
            \<and> (num_le0 n0 \<or> num_le0 n1 \<or> num_le0 n2))"
    by blast
  from bad_scale_is_noop [OF this] h show ?thesis
    by blast
qed

text \<open>
  C10: for an op outside floor, center, translate, rotate, scale and toggleWireframe, with a
  model present, the constructor returns without an error and leaves the op unset, and
  applying the Transform calls neither the model nor the message sink.
\<close>

theorem Transform_unknown_op:
  assumes "op' \<notin> {Some ''floor'', Some ''center'', Some ''translate'', Some ''rotate'',
                   Some ''scale'', Some ''toggleWireframe''}"
  shows "\<exists>t. Transform str op' axis' amount' (Some m) printout' = Inr t
           \<and> op t = None \<and> Transform_apply t = Inr []"
  using assms by (simp add: Transform_def new_object_def Transform_apply_def)

theorem Transform_unknown_op_witness:
  "Some ''mirror'' \<notin> {Some ''floor'', Some ''center'', Some ''translate'', Some ''rotate'',
                        Some ''scale'', Some ''toggleWireframe''}
   \<and> (\<exists>t. Transform example_str (Some ''mirror'') (Some ''x'') (Number (Fin 1))
              (Some example_model) None = Inr t
          \<and> op t = None \<and> Transform_apply t = Inr [])"
  using Transform_unknown_op [of "Some ''mirror''" example_str "Some ''x''" "Number (Fin 1)"
          example_model None]
  by simp

section \<open>Inverses\<close>

lemma is_tripleE: "is_triple a \<Longrightarrow> \<exists>n0 n1 n2. a = Array [n0, n1, n2]"
proof (cases a)
  case (Array ns)
  assume "is_triple a"
  with Array have "length ns = 3" by simp
  then obtain n0 n1 n2 where "ns = [n0, n1, n2]"
    by (auto simp: length_Suc_conv numeral_3_eq_3)
  with Array show ?thesis by simp
qed simp_all

lemma is_numberE: "is_number a \<Longrightarrow> \<exists>n. a = Number n"
  by (cases a) simp_all

lemma positive_Fin: "positive n \<Longrightarrow> \<exists>r. n = Fin r \<and> 0 < r"
  by (cases n) simp_all

lemma positive_recip: "positive n \<Longrightarrow> positive (num_recip n)"
  by (cases n) simp_all

lemma not_le0_positive: "\<not> num_le0 n \<Longrightarrow> is_finite n \<Longrightarrow> positive n"
  by (cases n) simp_all

text \<open>The inverse of a well-formed Transform that is not a noop, field by field.\<close>

lemma makeInverse_well_formed_result:
  assumes "well_formed t" and "op t \<noteq> Some ''noop''"
  shows "makeInverse str t =
           Inr (Some \<lparr>transform.printout = Console, op = op t, reason = None,
                  model = model t, dynamic = Some False, axis = axis t,
                  amount = (if op t = Some ''scale'' then componentwise num_recip (amount t)
                            else if op t = Some ''translate'' \<or> op t = Some ''rotate''
                              then componentwise num_neg (amount t)
                            else Undefined),
                  inverse_flag = True, start = Undefined\<rparr>)"
proof -
  from assms obtain m where m: "model t = Some m"
    by (auto simp: well_formed_def)
  consider (scale) "op t = Some ''scale''"
    | (move) "op t = Some ''translate'' \<or> op t = Some ''rotate''"
    | (other) "op t \<noteq> Some ''scale''" "op t \<noteq> Some ''translate''" "op t \<noteq> Some ''rotate''"
    by argo
  then show ?thesis
  proof cases
    case scale
    show ?thesis
    proof (cases "axis t = Some ''all''")
      case True
      with assms scale obtain n0 n1 n2 where "amount t = Array [n0, n1, n2]"
        and "positive n0" "positive n1" "positive n2"
        by (auto simp: well_formed_def shaped_def dest!: is_tripleE)
      then obtain r0 r1 r2 where "amount t = Array [Fin r0, Fin r1, Fin r2]"
        and "0 < r0" "0 < r1" "0 < r2"
        by (auto dest!: positive_Fin)
      with scale True m show ?thesis
        by (simp add: makeInverse_def Transform_def new_object_def isBadScale_def
              js_le0_def js_recip_def)
    next
      case False
      with assms scale obtain n where "amount t = Number n" and "positive n"
        by (auto simp: well_formed_def shaped_def dest!: is_numberE)
      then obtain r where "amount t = Number (Fin r)" and "0 < r"
        by (auto dest!: positive_Fin)
      with scale False m show ?thesis
        by (simp add: makeInverse_def Transform_def new_object_def isBadScale_def
              js_le0_def js_recip_def)
    qed
  next
    case move
    show ?thesis
    proof (cases "axis t = Some ''all''")
      case True
      with assms move obtain n0 n1 n2 where "amount t = Array [n0, n1, n2]"
        by (auto simp: well_formed_def shaped_def dest!: is_tripleE)
      with move True m assms(2) show ?thesis
        by (auto simp: makeInverse_def Transform_def new_object_def js_neg_def)
    next
      case False
      with assms move obtain n where "amount t = Number n"
        by (auto simp: well_formed_def shaped_def dest!: is_numberE)
      with move False m assms(2) show ?thesis
        by (auto simp: makeInverse_def Transform_def new_object_def js_neg_def)
    qed
  next
    case other
    with assms have "axis t = None" and "op t = Some ''toggleWireframe'' \<or> op t = None"
      by (simp_all add: well_formed_def)
    with m show ?thesis
      by (auto simp: makeInverse_def Transform_def new_object_def)
  qed
qed

text \<open>
  C4: for every Transform that is not a noop and that keeps the invariants of the data
  model, \<^verbatim>\<open>makeInverse\<close> returns a Transform with the same op and axis and the same model,
  with the inverse flag set; its amount is the componentwise negation of the original
  amount for translate and rotate, and the componentwise reciprocal for scale.
\<close>

theorem makeInverse_same_op_axis_model:
  assumes "well_formed t" and "op t \<noteq> Some ''noop''"
  shows "\<exists>inv'. makeInverse str t = Inr (Some inv')
           \<and> op inv' = op t \<and> axis inv' = axis t \<and> model inv' = model t
           \<and> inverse_flag inv'
           \<and> (op t = Some ''translate'' \<or> op t = Some ''rotate''
                \<longrightarrow> amount inv' = componentwise num_neg (amount t))
           \<and> (op t = Some ''scale'' \<longrightarrow> amount inv' = componentwise num_recip (amount t))"
  using makeInverse_well_formed_result [OF assms, of str] by auto

theorem makeInverse_same_op_axis_model_witness:
  "well_formed example_translate \<and> op example_translate \<noteq> Some ''noop''
   \<and> (\<exists>inv'. makeInverse example_str example_translate = Inr (Some inv')
          \<and> op inv' = Some ''translate'' \<and> axis inv' = Some ''all''
          \<and> model inv' = Some example_model \<and> inverse_flag inv'
          \<and> amount inv' = Array [Fin (- 1), Fin 3, Fin 0])"
proof -
  have wf: "well_formed example_translate"
    by (simp add: well_formed_def example_translate_def shaped_def)
  have nn: "op example_translate \<noteq> Some ''noop''"
    by (simp add: example_translate_def)
  from makeInverse_same_op_axis_model [OF wf nn, of example_str] wf nn show ?thesis
    by (auto simp: example_translate_def)
qed

text \<open>The numbers of the model are the reals where they are finite: there \<^verbatim>\<open>-1 * r\<close> is
  the negation and, away from 0, \<^verbatim>\<open>1 / r\<close> the reciprocal.\<close>

lemma num_neg_Fin: "num_neg (Fin r) = Fin (- r)"
  by simp

lemma num_recip_Fin: "r \<noteq> 0 \<Longrightarrow> num_recip (Fin r) = Fin (inverse r)"
  by (simp add: divide_inverse)

text \<open>The constructor establishes the invariants, given an amount of the shape its axis
  asks for and, for a scale, finite; \<^verbatim>\<open>makeInverse\<close> keeps them.\<close>

lemma isBadScale_False_positive:
  assumes "isBadScale a = Inr False" and "shaped ax a" and "finite_amount a"
  shows "all_positive a"
proof (cases "ax = Some ''all''")
  case True
  with assms(2) obtain n0 n1 n2 where a: "a = Array [n0, n1, n2]"
    by (auto simp: shaped_def dest!: is_tripleE)
  with assms(1) have "\<not> num_le0 n0" "\<not> num_le0 n1" "\<not> num_le0 n2"
    by (simp_all add: isBadScale_def js_le0_def)
  with assms(3) a show ?thesis
    by (simp add: not_le0_positive)
next
  case False
  with assms(2) obtain n where a: "a = Number n"
    by (auto simp: shaped_def dest!: is_numberE)
  with assms(1) have "\<not> num_le0 n"
    by (simp add: isBadScale_def js_le0_def split: if_splits)
  with assms(3) a show ?thesis
    by (simp add: not_le0_positive)
qed

lemma Transform_well_formed:
  assumes t: "Transform str op' axis' amount' model' printout' = Inr t"
    and shape: "op' = Some ''translate'' \<or> op' = Some ''rotate'' \<or> op' = Some ''scale''
           \<Longrightarrow> shaped axis' amount'"
    and fin: "op' = Some ''scale'' \<Longrightarrow> finite_amount amount'"
  shows "well_formed t"
proof (cases model')
  case None
  with t show ?thesis
    by (auto simp: Transform_def well_formed_def)
next
  case (Some m)
  consider (floor) "op' = Some ''floor''" | (center) "op' = Some ''center''"
    | (translate) "op' = Some ''translate''" | (rotate) "op' = Some ''rotate''"
    | (scale) "op' = Some ''scale''" | (toggle) "op' = Some ''toggleWireframe''"
    | (other) "op' \<noteq> Some ''floor''" "op' \<noteq> Some ''center''" "op' \<noteq> Some ''translate''"
        "op' \<noteq> Some ''rotate''" "op' \<noteq> Some ''scale''" "op' \<noteq> Some ''toggleWireframe''"
    by argo
  then show ?thesis
  proof cases
    case floor
    with t Some show ?thesis
      by (auto simp: Transform_def new_object_def well_formed_def shaped_def Let_def
            split: if_splits)
  next
    case center
    with t Some show ?thesis
      by (auto simp: Transform_def new_object_def well_formed_def shaped_def Let_def
            split: if_splits sum.splits)
  next
    case translate
    with t Some shape show ?thesis
      by (auto simp: Transform_def new_object_def well_formed_def)
  next
    case rotate
    with t Some shape show ?thesis
      by (auto simp: Transform_def new_object_def well_formed_def)
  next
    case scale
    show ?thesis
    proof (cases "isBadScale amount'")
      case (Inl e)
      with t Some scale show ?thesis
        by (simp add: Transform_def)
    next
      case (Inr b)
      show ?thesis
      proof (cases b)
        case True
        with t Some scale Inr show ?thesis
          by (auto simp: Transform_def new_object_def well_formed_def)
      next
        case False
        with Inr scale shape fin have "all_positive amount'"
          by (auto intro: isBadScale_False_positive)
        with t Some scale Inr False shape show ?thesis
          by (auto simp: Transform_def new_object_def well_formed_def)
      qed
    qed
  next
    case toggle
    with t Some show ?thesis
      by (auto simp: Transform_def new_object_def well_formed_def)
  next
    case other
    with t Some show ?thesis
      by (auto simp: Transform_def new_object_def well_formed_def)
  qed
qed

lemma makeInverse_well_formed:
  assumes wf: "well_formed t" and inv: "makeInverse str t = Inr (Some inv')"
  shows "well_formed inv'"
proof -
  from inv have nn: "op t \<noteq> Some ''noop''"
    by (auto simp: makeInverse_def)
  from wf nn
  have "shaped (axis t) (amount t) \<Longrightarrow> shaped (axis t) (componentwise f (amount t))" for f
    by (cases "amount t") (auto simp: shaped_def split: if_splits)
  moreover
  have "all_positive (amount t) \<Longrightarrow> all_positive (componentwise num_recip (amount t))"
    by (cases "amount t") (auto simp: positive_recip list_all_iff)
  ultimately show ?thesis
    using makeInverse_well_formed_result [OF wf nn, of str] inv wf nn
    by (auto simp: well_formed_def split: if_splits)
qed

lemma example_scale_constructed:
  "Transform str (Some ''scale'') (Some ''all'') (Array [Fin 2, Fin 4, Fin 5])
     (Some example_model) None = Inr example_scale"
  by (simp add: Transform_def new_object_def isBadScale_def js_le0_def example_scale_def)

lemma example_translate_constructed:
  "Transform str (Some ''translate'') (Some ''all'') (Array [Fin 1, Fin (- 3), Fin 0])
     (Some example_model) None = Inr example_translate"
  by (simp add: Transform_def new_object_def example_translate_def)

lemma example_noop_constructed:
  "Transform str op' axis' amount' None None = Inr example_noop"
  by (simp add: Transform_def new_object_def example_noop_def)

section \<open>Applying a Transform\<close>

text \<open>
  C3: for every scale Transform with the axis \<^verbatim>\<open>"all"\<close> and an amount triple [a0, a1, a2],
  \<^verbatim>\<open>apply\<close> calls the scale primitive of the model on x, on y and on z, each time with a0;
  a1 and a2 are passed to no call.
\<close>

theorem scale_all_uses_first_component:
  assumes "op t = Some ''scale''" and "axis t = Some ''all''"
    and "amount t = Array [a0, a1, a2]" and "model t = Some m"
  shows "Transform_apply t =
           Inr [Scale m (Some ''x'') (Number a0), Scale m (Some ''y'') (Number a0),
                Scale m (Some ''z'') (Number a0)]"
  using assms by (simp add: Transform_apply_def)

theorem scale_all_uses_first_component_witness:
  "op example_scale = Some ''scale'' \<and> axis example_scale = Some ''all''
   \<and> amount example_scale = Array [Fin 2, Fin 4, Fin 5]
   \<and> model example_scale = Some example_model
   \<and> Transform_apply example_scale =
        Inr [Scale example_model (Some ''x'') (Number (Fin 2)),
             Scale example_model (Some ''y'') (Number (Fin 2)),
             Scale example_model (Some ''z'') (Number (Fin 2))]"
proof -
  have h: "op example_scale = Some ''scale''" "axis example_scale = Some ''all''"
    "amount example_scale = Array [Fin 2, Fin 4, Fin 5]"
    "model example_scale = Some example_model"
    by (simp_all add: example_scale_def)
  from scale_all_uses_first_component [OF h] h show ?thesis
    by simp
qed

text \<open>
  C2: for every scale Transform with a strictly positive amount (a number, or a triple with
  all components positive), applying it and then applying the Transform that
  \<^verbatim>\<open>makeInverse\<close> returns brings the scale factor of the model along every axis back to
  what it was, in exact arithmetic.
\<close>

theorem scale_then_inverse_restores:
  assumes "well_formed t" and "op t = Some ''scale''"
  shows "\<exists>inv' cs cs'. makeInverse str t = Inr (Some inv')
           \<and> Transform_apply t = Inr cs \<and> cs \<noteq> [] \<and> Transform_apply inv' = Inr cs'
           \<and> fold scale_effect (cs @ cs') f = f"
proof -
  from assms obtain m where m: "model t = Some m"
    by (auto simp: well_formed_def)
  from assms have inv: "makeInverse str t =
      Inr (Some \<lparr>transform.printout = Console, op = Some ''scale'', reason = None,
             model = Some m, dynamic = Some False, axis = axis t,
             amount = componentwise num_recip (amount t),
             inverse_flag = True, start = Undefined\<rparr>)"
    using makeInverse_well_formed_result [of t str] m by simp
  show ?thesis
  proof (cases "axis t = Some ''all''")
    case True
    with assms obtain n0 n1 n2 where "amount t = Array [n0, n1, n2]" and "positive n0"
      by (auto simp: well_formed_def shaped_def dest!: is_tripleE)
    then obtain r0 where "amount t = Array [Fin r0, n1, n2]" and "0 < r0"
      by (auto dest!: positive_Fin)
    then show ?thesis
      using inv m True assms(2)
      by (simp add: Transform_apply_def fun_eq_iff)
  next
    case False
    with assms obtain n where "amount t = Number n" and "positive n"
      by (auto simp: well_formed_def shaped_def dest!: is_numberE)
    then obtain r where "amount t = Number (Fin r)" and "0 < r"
      by (auto dest!: positive_Fin)
    then show ?thesis
      using inv m False assms(2)
      by (simp add: Transform_apply_def fun_eq_iff)
  qed
qed

theorem scale_then_inverse_restores_witness:
  "well_formed example_scale \<and> op example_scale = Some ''scale''
   \<and> (\<exists>inv' cs cs'. makeInverse example_str example_scale = Inr (Some inv')
          \<and> Transform_apply example_scale = Inr cs \<and> cs \<noteq> []
          \<and> Transform_apply inv' = Inr cs'
          \<and> fold scale_effect (cs @ cs') (\<lambda>i ax. 3) = (\<lambda>i ax. 3))"
proof -
  have wf: "well_formed example_scale"
    by (simp add: well_formed_def example_scale_def shaped_def)
  have sc: "op example_scale = Some ''scale''"
    by (simp add: example_scale_def)
  from scale_then_inverse_restores [OF wf sc, of example_str "\<lambda>i ax. 3"] wf sc
  show ?thesis by simp
qed

text \<open>What the inverse of an all-axis rotation replays: the axes in the order z, y, x, the
  negated amounts in the order in which they are stored.\<close>

lemma rotate_all_inverse_replay:
  "\<exists>t inv'. Transform str (Some ''rotate'') (Some ''all'') (Array [Fin rx, Fin ry, Fin rz])
               (Some m) p = Inr t
     \<and> Transform_apply t =
         Inr [Rotate m (Some ''x'') (Number (Fin rx)), Rotate m (Some ''y'') (Number (Fin ry)),
              Rotate m (Some ''z'') (Number (Fin rz))]
     \<and> makeInverse str t = Inr (Some inv')
     \<and> Transform_apply inv' =
         Inr [Rotate m (Some ''z'') (Number (Fin (- rx))),
              Rotate m (Some ''y'') (Number (Fin (- ry))),
              Rotate m (Some ''x'') (Number (Fin (- rz)))]"
  by (simp add: Transform_def new_object_def makeInverse_def Transform_apply_def js_neg_def)

lemma cos_sin_unit: "y * (cos a * cos a) + y * (sin a * sin a) = (y::real)"
proof -
  have "y * (cos a * cos a) + y * (sin a * sin a) = y * (cos a * cos a + sin a * sin a)"
    by (simp only: distrib_left)
  then show ?thesis by (simp only: sin_cos_squared_add3 mult_1_right)
qed

lemma rot_back: "rot ax (- a) (rot ax a v) = v"
  by (cases v) (simp add: algebra_simps cos_sin_unit)

text \<open>The replay that undoes the rotations x by rx, y by ry, z by rz is z by -rz, then y
  by -ry, then x by -rx.\<close>

lemma reversed_replay_restores:
  "rot (Some ''x'') (- rx) (rot (Some ''y'') (- ry) (rot (Some ''z'') (- rz)
     (rot (Some ''z'') rz (rot (Some ''y'') ry (rot (Some ''x'') rx v))))) = v"
  by (simp only: rot_back)

text \<open>
  C1 says that applying an all-axis rotation (x by rx, then y by ry, then z by rz) and
  then its inverse restores the orientation, the inverse replaying z by -rz, then y by
  -ry, then x by -rx. For the amounts (pi/2, 0, 0) the inverse built by \<^verbatim>\<open>makeInverse\<close>
  replays z by -pi/2, then y by 0, then x by 0: the axis order is reversed and the order
  of the amounts is not. The model is left a quarter turn about x followed by a quarter
  turn back about z away from where it started.
\<close>

theorem rotate_all_inverse_does_not_restore:
  "\<exists>t inv' cs cs'.
      Transform str (Some ''rotate'') (Some ''all'') (Array [Fin (pi / 2), Fin 0, Fin 0])
        (Some example_model) None = Inr t
    \<and> Transform_apply t = Inr cs
    \<and> makeInverse str t = Inr (Some inv')
    \<and> Transform_apply inv' = Inr cs'
    \<and> cs' = [Rotate example_model (Some ''z'') (Number (Fin (- (pi / 2)))),
             Rotate example_model (Some ''y'') (Number (Fin 0)),
             Rotate example_model (Some ''x'') (Number (Fin 0))]
    \<and> cs' \<noteq> [Rotate example_model (Some ''z'') (Number (Fin 0)),
             Rotate example_model (Some ''y'') (Number (Fin 0)),
             Rotate example_model (Some ''x'') (Number (Fin (- (pi / 2))))]
    \<and> fold rotate_effect (cs @ cs') (\<lambda>i. upright) 0 = [(0, - 1, 0), (0, 0, 1), (- 1, 0, 0)]
    \<and> fold rotate_effect (cs @ cs') (\<lambda>i. upright) 0 \<noteq> upright"
  using rotate_all_inverse_replay [of str "pi / 2" 0 0 example_model None]
  by (auto simp: upright_def example_model_def)

section \<open>The undo history\<close>

text \<open>
  C9: \<^verbatim>\<open>makeInverse\<close> returns \<^verbatim>\<open>null\<close> exactly when the op is \<^verbatim>\<open>"noop"\<close>; \<^verbatim>\<open>push\<close> appends
  its argument to the history when it is not \<^verbatim>\<open>null\<close> and leaves the stack as it is
  otherwise; so pushing the result of \<^verbatim>\<open>makeInverse\<close> on a noop Transform never changes
  the history.
\<close>

theorem makeInverse_null_iff_noop:
  "(makeInverse str t = Inr None \<longleftrightarrow> op t = Some ''noop'')
   \<and> push s None = s
   \<and> push s (Some i) = s\<lparr>history := history s @ [i]\<rparr>
   \<and> (op t = Some ''noop'' \<longrightarrow> (\<exists>r. makeInverse str t = Inr r \<and> push s r = s))"
  by (auto simp: makeInverse_def push_def split: sum.splits jsval.splits)

theorem makeInverse_null_iff_noop_witness:
  "op example_noop = Some ''noop''
   \<and> makeInverse example_str example_noop = Inr None
   \<and> (\<exists>r. makeInverse example_str example_noop = Inr r
          \<and> push (UndoStack None) r = UndoStack None)
   \<and> history (push (UndoStack None) (Some example_scale)) = [example_scale]"
  using makeInverse_null_iff_noop [of example_str example_noop "UndoStack None" example_scale]
  by (simp add: example_noop_def UndoStack_def)

text \<open>
  C5: after the three Transforms inv1, inv2, inv3 have been pushed in that order, three
  calls of \<^verbatim>\<open>undo\<close> apply inv3, then inv2, then inv1, each call taking one entry off the
  history; on a stack that held nothing else, a fourth call hands
  \<^verbatim>\<open>"No undo history available."\<close> to the message sink and does nothing more.
\<close>

theorem undo_reverses_push_order:
  "undo (push (push (push s (Some inv1)) (Some inv2)) (Some inv3))
     = (push (push s (Some inv1)) (Some inv2), Transform_apply inv3)
   \<and> undo (push (push s (Some inv1)) (Some inv2))
     = (push s (Some inv1), Transform_apply inv2)
   \<and> undo (push s (Some inv1)) = (s, Transform_apply inv1)
   \<and> length (history (push (push (push s (Some inv1)) (Some inv2)) (Some inv3)))
     = length (history s) + 3
   \<and> (history s = [] \<longrightarrow>
        undo s = (s, Inr [Warn (undo_stack.printout s) (Some ''No undo history available.'')]))"
  by (simp add: push_def undo_def Let_def butlast_append)

theorem undo_reverses_push_order_witness:
  "history (UndoStack None) = []
   \<and> undo (push (push (push (UndoStack None) (Some example_translate))
              (Some example_scale)) (Some example_noop))
     = (push (push (UndoStack None) (Some example_translate)) (Some example_scale),
        Inr [Warn Console (Some ''Model doesn't exist.'')])
   \<and> undo (push (push (UndoStack None) (Some example_translate)) (Some example_scale))
     = (push (UndoStack None) (Some example_translate),
        Inr [Scale example_model (Some ''x'') (Number (Fin 2)),
             Scale example_model (Some ''y'') (Number (Fin 2)),
             Scale example_model (Some ''z'') (Number (Fin 2))])
   \<and> undo (push (UndoStack None) (Some example_translate))
     = (UndoStack None,
        Inr [Translate example_model (Some ''x'') (Number (Fin 1)),
             Translate example_model (Some ''y'') (Number (Fin (- 3))),
             Translate example_model (Some ''z'') (Number (Fin 0))])
   \<and> undo (UndoStack None)
     = (UndoStack None, Inr [Warn Console (Some ''No undo history available.'')])"
proof -
  have h: "history (UndoStack None) = []"
    by (simp add: UndoStack_def)
  have a: "Transform_apply example_noop = Inr [Warn Console (Some ''Model doesn't exist.'')]"
    by (simp add: Transform_apply_def example_noop_def)
  have b: "Transform_apply example_scale =
      Inr [Scale example_model (Some ''x'') (Number (Fin 2)),
           Scale example_model (Some ''y'') (Number (Fin 2)),
           Scale example_model (Some ''z'') (Number (Fin 2))]"
    by (simp add: Transform_apply_def example_scale_def)
  have c: "Transform_apply example_translate =
      Inr [Translate example_model (Some ''x'') (Number (Fin 1)),
           Translate example_model (Some ''y'') (Number (Fin (- 3))),
           Translate example_model (Some ''z'') (Number (Fin 0))]"
    by (simp add: Transform_apply_def example_translate_def)
  have p: "undo_stack.printout (UndoStack None) = Console"
    by (simp add: UndoStack_def)
  from undo_reverses_push_order [of "UndoStack None" example_translate example_scale
         example_noop] h
  show ?thesis
    by (simp add: a b c p)
qed

end
